theory Spec2Isabelle
  imports Complex_Main
begin

section \<open>The vesting ledger of \<open>src/main.py\<close>\<close>

text \<open>
  The class \<open>VestingBoost\<close> keeps one vesting position. Its methods read the module-wide
  clock \<open>BLOCK_TIMESTAMP\<close>; here the clock is the explicit first argument
  \<open>block_timestamp\<close> of every method that reads it, and \<open>adjust_time\<close> maps the old clock
  to the new one.

  Numbers: the arguments of the methods are Python integers (\<open>int\<close>). The token fields
  start as integers and turn into results of Python's true division \<open>/\<close> as soon as a
  speed is computed; they are modelled as exact rationals (\<open>rat\<close>), which is the number
  type the specification gives them. The rounding of binary floating point and its
  overflow are outside this model: every number of the model is finite and exact. At
  the concrete ledgers evaluated below, the amounts that the code computes in doubles
  are the rationals shown (a stored speed is the double nearest to the rational shown).
  The statements about all ledgers are about signs, order and which fields a call
  assigns.

  Errors: a failed \<open>assert\<close> raises \<open>AssertionError\<close> with its message, a division by zero
  raises \<open>ZeroDivisionError\<close>. A Python exception does not undo the assignments made
  before it, so a method that raises is modelled by \<open>Raised e s\<close>, where \<open>s\<close> is the object as
  the exception leaves it.
\<close>

datatype error = AssertionError string | ZeroDivisionError

definition ONE_YEAR_IN_SECONDS :: int where
  "ONE_YEAR_IN_SECONDS = 365 * 24 * 3600"

record VestingBoost =
  remain_vest_token :: rat
  total_boost_token :: rat
  total_vested :: rat
  speed :: rat
  boost_weight :: rat
  total_duration_seconds :: int
  last_update_time :: int
  claimed_amount :: rat
  claimable_boost_token :: rat
  claimable_vested_token :: rat

datatype outcome = Returned VestingBoost | Raised error VestingBoost

fun ledger_after :: "outcome \<Rightarrow> VestingBoost" where
  "ledger_after (Returned s) = s"
| "ledger_after (Raised e s) = s"


subsection \<open>Internal methods\<close>

text \<open>\<open>_update_vesting_speed\<close>: two true divisions, the first by \<open>remain_vest_token\<close>.\<close>

definition update_vesting_speed :: "VestingBoost \<Rightarrow> error + VestingBoost" where
  "update_vesting_speed s =
     (if remain_vest_token s = 0 then Inl ZeroDivisionError
      else if total_duration_seconds s = 0 then Inl ZeroDivisionError
      else
        (let multiplier = (remain_vest_token s + boost_weight s) / remain_vest_token s
         in Inr (s\<lparr>speed := multiplier * (remain_vest_token s / of_int (total_duration_seconds s))\<rparr>)))"

text \<open>\<open>__init__\<close>: no object exists when the constructor raises.\<close>

definition init :: "int \<Rightarrow> int \<Rightarrow> error + VestingBoost" where
  "init block_timestamp initial_vesting =
     update_vesting_speed
       \<lparr> remain_vest_token = of_int initial_vesting,
         total_boost_token = 0,
         total_vested = 0,
         speed = 0,
         boost_weight = 0,
         total_duration_seconds = ONE_YEAR_IN_SECONDS * 2,
         last_update_time = block_timestamp,
         claimed_amount = 0,
         claimable_boost_token = 0,
         claimable_vested_token = 0 \<rparr>"

text \<open>\<open>_reset_state\<close>\<close>

definition reset_state :: "int \<Rightarrow> VestingBoost \<Rightarrow> VestingBoost" where
  "reset_state block_timestamp s =
     s\<lparr> claimable_boost_token := claimable_boost_token s + total_boost_token s,
        claimable_vested_token := claimable_vested_token s + (total_vested s - claimed_amount s),
        remain_vest_token := 0,
        total_boost_token := 0,
        total_vested := 0,
        speed := 0,
        boost_weight := 0,
        total_duration_seconds := ONE_YEAR_IN_SECONDS * 2,
        last_update_time := block_timestamp,
        claimed_amount := 0 \<rparr>"

text \<open>
  \<open>cal_state_update\<close>: the pair \<open>(new_vested, new_boost_weight)\<close>. The quotient is
  evaluated whatever \<open>total_boost_token\<close> is, so the call raises when
  \<open>remain_vest_token + total_vested\<close> is zero.
\<close>

definition cal_state_update :: "int \<Rightarrow> VestingBoost \<Rightarrow> error + (rat \<times> rat)" where
  "cal_state_update block_timestamp s =
     (let time_elapsed = block_timestamp - last_update_time s;
          new_vested = min (speed s * of_int time_elapsed) (remain_vest_token s)
      in if remain_vest_token s + total_vested s = 0 then Inl ZeroDivisionError
         else Inr (new_vested,
                   total_boost_token s *
                     ((total_vested s + new_vested) / (remain_vest_token s + total_vested s))))"

text \<open>\<open>_update_state\<close>\<close>

definition update_state :: "int \<Rightarrow> VestingBoost \<Rightarrow> error + VestingBoost" where
  "update_state block_timestamp s =
     (if last_update_time s < block_timestamp then
        (case cal_state_update block_timestamp s of
           Inl e \<Rightarrow> Inl e
         | Inr (new_vested, new_boost_weight) \<Rightarrow>
             Inr (s\<lparr> total_vested := total_vested s + new_vested,
                     remain_vest_token := remain_vest_token s - new_vested,
                     boost_weight := new_boost_weight,
                     last_update_time := block_timestamp \<rparr>))
      else Inr s)"

subsection \<open>Public methods\<close>

definition boost :: "int \<Rightarrow> int \<Rightarrow> VestingBoost \<Rightarrow> outcome" where
  "boost block_timestamp boost_amount s =
     (if \<not> remain_vest_token s > 0 then Raised (AssertionError ''No tokens to boost'') s
      else if \<not> remain_vest_token s + total_vested s \<ge> total_boost_token s + of_int boost_amount
        then Raised (AssertionError ''Boost amount cannot exceed the total vesting amount'') s
      else
        (case update_state block_timestamp s of
           Inl e \<Rightarrow> Raised e s
         | Inr s1 \<Rightarrow>
             (let s2 = s1\<lparr> total_boost_token := total_boost_token s1 + of_int boost_amount,
                           boost_weight := boost_weight s1 + of_int boost_amount \<rparr>
              in case update_vesting_speed s2 of
                   Inl e \<Rightarrow> Raised e s2
                 | Inr s3 \<Rightarrow> Returned s3)))"

definition add_vesting :: "int \<Rightarrow> int \<Rightarrow> VestingBoost \<Rightarrow> outcome" where
  "add_vesting block_timestamp additional_vesting s =
     (case update_state block_timestamp s of
        Inl e \<Rightarrow> Raised e s
      | Inr s1 \<Rightarrow>
          (let s2 = (if remain_vest_token s1 = 0 then reset_state block_timestamp s1 else s1);
               s3 = s2\<lparr> remain_vest_token := remain_vest_token s2 + of_int additional_vesting \<rparr>
           in case update_vesting_speed s3 of
                Inl e \<Rightarrow> Raised e s3
              | Inr s4 \<Rightarrow> Returned s4))"

text \<open>\<open>adjust_time\<close> changes the clock only; it has no check and cannot raise.\<close>

definition adjust_time :: "int \<Rightarrow> int \<Rightarrow> int" where
  "adjust_time block_timestamp additional_seconds = block_timestamp + additional_seconds"

text \<open>The dictionary returned by \<open>get_current_state\<close>, one field for each key.\<close>

record snapshot =
  Remain_Vest :: rat
  Total_Boost_Token :: rat
  Weight :: rat
  Total_Vested :: rat
  Available_to_claim :: rat
  Speed_per_2_year :: rat
  Total_Unclaimed_TORCH :: rat
  Total_Withdrawable_Boost :: rat

text \<open>
  \<open>get_current_state\<close>: the local \<open>total_vested\<close> starts at \<open>0\<close> and the local
  \<open>remain_vest\<close> starts at the field \<open>total_vested\<close>, as in the source.
\<close>

definition get_current_state :: "int \<Rightarrow> VestingBoost \<Rightarrow> error + snapshot" where
  "get_current_state block_timestamp s =
     (case (if last_update_time s < block_timestamp then
              (case cal_state_update block_timestamp s of
                 Inl e \<Rightarrow> Inl e
               | Inr (new_vested, new_boost_weight) \<Rightarrow>
                   Inr (0 + new_vested, total_vested s - new_vested, new_boost_weight))
            else Inr (0, total_vested s, boost_weight s)) of
        Inl e \<Rightarrow> Inl e
      | Inr (total_vested_l, remain_vest, boost_weight_l) \<Rightarrow>
          Inr \<lparr> Remain_Vest = remain_vest,
                Total_Boost_Token = total_boost_token s,
                Weight = boost_weight_l,
                Total_Vested = total_vested_l,
                Available_to_claim = total_vested_l - claimed_amount s,
                Speed_per_2_year = speed s * 2 * 365 * 24 * 3600,
                Total_Unclaimed_TORCH = claimable_vested_token s,
                Total_Withdrawable_Boost = claimable_boost_token s \<rparr>)"

subsection \<open>Sequences of calls\<close>

text \<open>
  A caller holds the clock and one ledger and issues calls one after the other. A call
  that raises leaves the object as the exception left it, and the caller may go on.
\<close>

datatype op = Boost int | AddVesting int | AdjustTime int | GetCurrentState

fun step :: "op \<Rightarrow> int \<times> VestingBoost \<Rightarrow> int \<times> VestingBoost" where
  "step (Boost a) (t, s) = (t, ledger_after (boost t a s))"
| "step (AddVesting a) (t, s) = (t, ledger_after (add_vesting t a s))"
| "step (AdjustTime d) (t, s) = (adjust_time t d, s)"
| "step GetCurrentState (t, s) = (t, s)"

fun run :: "op list \<Rightarrow> int \<times> VestingBoost \<Rightarrow> int \<times> VestingBoost" where
  "run [] w = w"
| "run (x # xs) w = run xs (step x w)"

text \<open>Calls whose deposits are not negative, and calls none of whose arguments is.\<close>

fun nonneg_deposit :: "op \<Rightarrow> bool" where
  "nonneg_deposit (AddVesting a) = (0 \<le> a)"
| "nonneg_deposit x = True"


subsection \<open>Invariants and concrete ledgers\<close>

text \<open>
  What every ledger built by the constructor from a positive amount and driven by calls
  with non-negative deposits keeps: \<open>remain_vest_token\<close> is not negative, nothing has
  been claimed (no method assigns \<open>claimed_amount\<close> a value other than 0), and the
  duration is the two-year constant.
\<close>

definition well_formed :: "VestingBoost \<Rightarrow> bool" where
  "well_formed s \<longleftrightarrow>
     0 \<le> remain_vest_token s \<and> claimed_amount s = 0 \<and>
     total_duration_seconds s = ONE_YEAR_IN_SECONDS * 2"


text \<open>The ledger \<open>VestingBoost(initial_vesting=100)\<close> built at clock 0, as in the script.\<close>

definition fresh_100 :: VestingBoost where
  "fresh_100 =
     \<lparr> remain_vest_token = 100, total_boost_token = 0, total_vested = 0,
       speed = 100 / 63072000, boost_weight = 0, total_duration_seconds = 63072000,
       last_update_time = 0, claimed_amount = 0, claimable_boost_token = 0,
       claimable_vested_token = 0 \<rparr>"


text \<open>
  \<open>fresh_100\<close> after \<open>adjust_time(31536000)\<close> (one year) and \<open>add_vesting(0)\<close>: half of
  the tokens have vested.
\<close>

definition half_100 :: VestingBoost where
  "half_100 =
     \<lparr> remain_vest_token = 50, total_boost_token = 0, total_vested = 50,
       speed = 50 / 63072000, boost_weight = 0, total_duration_seconds = 63072000,
       last_update_time = 31536000, claimed_amount = 0, claimable_boost_token = 0,
       claimable_vested_token = 0 \<rparr>"


text \<open>
  What the raising call \<open>add_vesting(0)\<close> leaves of \<open>fresh_100\<close> at clock 63072000: the
  epoch has been reset, no token remains, and the 100 vested tokens are claimable.
\<close>

definition stuck_100 :: VestingBoost where
  "stuck_100 =
     \<lparr> remain_vest_token = 0, total_boost_token = 0, total_vested = 0,
       speed = 0, boost_weight = 0, total_duration_seconds = 63072000,
       last_update_time = 63072000, claimed_amount = 0, claimable_boost_token = 0,
       claimable_vested_token = 100 \<rparr>"

section \<open>Construction\<close>

lemma init_eq:
  "init t v =
     (if v = 0 then Inl ZeroDivisionError
      else Inr \<lparr> remain_vest_token = of_int v, total_boost_token = 0, total_vested = 0,
                 speed = of_int v / of_int (ONE_YEAR_IN_SECONDS * 2), boost_weight = 0,
                 total_duration_seconds = ONE_YEAR_IN_SECONDS * 2, last_update_time = t,
                 claimed_amount = 0, claimable_boost_token = 0, claimable_vested_token = 0 \<rparr>)"
  by (simp add: init_def update_vesting_speed_def ONE_YEAR_IN_SECONDS_def)

lemma init_100: "init 0 100 = Inr fresh_100"
  by (simp add: init_eq fresh_100_def ONE_YEAR_IN_SECONDS_def)

section \<open>Reconciliation and the calls keep the invariants\<close>

lemma update_state_eq:
  "update_state t s =
     (if last_update_time s < t then
        if remain_vest_token s + total_vested s = 0 then Inl ZeroDivisionError
        else Inr (s\<lparr> total_vested := total_vested s +
                        min (speed s * of_int (t - last_update_time s)) (remain_vest_token s),
                      remain_vest_token := remain_vest_token s -
                        min (speed s * of_int (t - last_update_time s)) (remain_vest_token s),
                      boost_weight := total_boost_token s *
                        ((total_vested s +
                          min (speed s * of_int (t - last_update_time s)) (remain_vest_token s)) /
                         (remain_vest_token s + total_vested s)),
                      last_update_time := t \<rparr>)
      else Inr s)"
  by (simp add: update_state_def cal_state_update_def Let_def)

lemma update_state_Inl:
  "update_state t s = Inl e \<Longrightarrow> e = ZeroDivisionError"
  by (simp add: update_state_eq split: if_splits)

lemma update_state_well_formed:
  assumes "well_formed s" and "update_state t s = Inr s1"
  shows "well_formed s1"
  using assms by (auto simp: update_state_eq well_formed_def split: if_splits)

lemma update_vesting_speed_eq:
  "update_vesting_speed s = Inr s' \<longleftrightarrow>
     remain_vest_token s \<noteq> 0 \<and> total_duration_seconds s \<noteq> 0 \<and>
     s' = s\<lparr>speed := (remain_vest_token s + boost_weight s) / remain_vest_token s *
                      (remain_vest_token s / of_int (total_duration_seconds s))\<rparr>"
  by (auto simp: update_vesting_speed_def Let_def)

lemma update_vesting_speed_Inl:
  "update_vesting_speed s = Inl e \<longleftrightarrow>
     e = ZeroDivisionError \<and> (remain_vest_token s = 0 \<or> total_duration_seconds s = 0)"
  by (auto simp: update_vesting_speed_def Let_def)

lemma boost_well_formed:
  assumes "well_formed s"
  shows "well_formed (ledger_after (boost t a s))"
  using assms update_state_well_formed[OF assms, of t]
  by (auto simp: boost_def Let_def well_formed_def update_vesting_speed_eq
           split: sum.splits)

lemma add_vesting_well_formed:
  assumes "well_formed s" and "0 \<le> a"
  shows "well_formed (ledger_after (add_vesting t a s))"
  using assms update_state_well_formed[OF assms(1), of t]
  by (auto simp: add_vesting_def Let_def well_formed_def update_vesting_speed_eq reset_state_def
           split: sum.splits)

lemma init_well_formed:
  "init t v = Inr s \<Longrightarrow> 0 < v \<Longrightarrow> well_formed s"
  by (auto simp: init_eq well_formed_def split: if_splits)

lemma step_well_formed:
  "well_formed s \<Longrightarrow> nonneg_deposit x \<Longrightarrow> well_formed (snd (step x (t, s)))"
  by (cases x) (simp_all add: boost_well_formed add_vesting_well_formed)

lemma run_well_formed:
  "well_formed (snd w) \<Longrightarrow> list_all nonneg_deposit ops \<Longrightarrow> well_formed (snd (run ops w))"
proof (induction ops arbitrary: w)
  case Nil
  then show ?case by simp
next
  case (Cons x xs)
  obtain t s where w: "w = (t, s)" by (cases w)
  from Cons.prems w have "well_formed (snd (step x w))"
    by (simp add: step_well_formed)
  with Cons show ?case by simp
qed












lemma update_state_exhausts:
  assumes "last_update_time s < u"
    and "remain_vest_token s \<le> speed s * of_int (u - last_update_time s)"
    and "update_state u s = Inr s1"
  shows "remain_vest_token s1 = 0"
proof -
  from assms(2)
  have "min (speed s * of_int (u - last_update_time s)) (remain_vest_token s)
          = remain_vest_token s"
    by simp
  with assms(1,3) show ?thesis
    by (auto simp: update_state_eq split: if_splits)
qed

lemma update_state_remain_nonneg:
  "0 \<le> remain_vest_token s \<Longrightarrow> update_state u s = Inr s1 \<Longrightarrow> 0 \<le> remain_vest_token s1"
  by (auto simp: update_state_eq split: if_splits)

lemmas eval_defs = fresh_100_def boost_def add_vesting_def adjust_time_def update_state_eq
  update_vesting_speed_def reset_state_def ONE_YEAR_IN_SECONDS_def get_current_state_def
  cal_state_update_def


section \<open>The state query\<close>

text \<open>
  C1 says that the query reports the reconciled remaining tokens
  (\<open>remain_vest_token - new_vested\<close>) and the reconciled vested total
  (\<open>total_vested + new_vested\<close>). The method starts its local \<open>remain_vest\<close> from the
  field \<open>total_vested\<close> and its local \<open>total_vested\<close> from 0. On the ledger just built
  from 100 tokens it reports 0 remaining where 100 remain; two years later it reports
  \<open>- 100\<close> where 0 remain; on the half-vested ledger it reports 0 vested where 50 have
  vested.
\<close>

theorem get_current_state_wrong_fields:
  "init 0 100 = Inr fresh_100 \<and> remain_vest_token fresh_100 = 100
   \<and> get_current_state 0 fresh_100 =
       Inr \<lparr> Remain_Vest = 0, Total_Boost_Token = 0, Weight = 0, Total_Vested = 0,
             Available_to_claim = 0, Speed_per_2_year = 100, Total_Unclaimed_TORCH = 0,
             Total_Withdrawable_Boost = 0 \<rparr>
   \<and> get_current_state 63072000 fresh_100 =
       Inr \<lparr> Remain_Vest = - 100, Total_Boost_Token = 0, Weight = 0, Total_Vested = 100,
             Available_to_claim = 100, Speed_per_2_year = 100, Total_Unclaimed_TORCH = 0,
             Total_Withdrawable_Boost = 0 \<rparr>
   \<and> run [AdjustTime 31536000, AddVesting 0] (0, fresh_100) = (31536000, half_100)
   \<and> total_vested half_100 = 50
   \<and> get_current_state 31536000 half_100 =
       Inr \<lparr> Remain_Vest = 50, Total_Boost_Token = 0, Weight = 0, Total_Vested = 0,
             Available_to_claim = 0, Speed_per_2_year = 50, Total_Unclaimed_TORCH = 0,
             Total_Withdrawable_Boost = 0 \<rparr>"
  by (simp add: init_100) (simp add: eval_defs half_100_def)

section \<open>Conservation\<close>

text \<open>
  C2 says that at every point of every sequence of calls
  \<open>remain_vest_token + total_vested + claimable_vested_token\<close> is the initial amount plus
  the sum of all \<open>add_vesting\<close> amounts. Two years after the construction from 100
  tokens, \<open>add_vesting(0)\<close> reconciles, resets the epoch and then divides by zero. One
  second later \<open>add_vesting(12)\<close> divides by zero inside the reconciliation, before the
  deposit: the ledger holds 100 tokens where the amounts handed to it sum to 112.
\<close>

theorem deposit_refused_after_reset:
  "init 0 100 = Inr fresh_100
   \<and> add_vesting (adjust_time 0 63072000) 0 fresh_100 = Raised ZeroDivisionError stuck_100
   \<and> add_vesting (adjust_time 63072000 1) 12 stuck_100 = Raised ZeroDivisionError stuck_100
   \<and> run [AdjustTime 63072000, AddVesting 0, AdjustTime 1, AddVesting 12] (0, fresh_100)
       = (63072001, stuck_100)
   \<and> remain_vest_token stuck_100 + total_vested stuck_100 + claimable_vested_token stuck_100
       = 100
   \<and> (100::rat) \<noteq> of_int 100 + (of_int 0 + of_int 12)"
  by (simp add: init_100) (simp add: eval_defs stuck_100_def)

section \<open>Speed\<close>




section \<open>Failing calls\<close>

text \<open>
  C4 says that a call that fails leaves every field as it was, and that the speed is
  never recomputed with no tokens remaining outside the reset path. \<open>boost\<close> asserts
  \<open>remain_vest_token > 0\<close> before it reconciles: two years after the construction
  from 100 tokens the assertion passes on the stored 100, reconciliation brings the
  remaining tokens to 0, the boost is added, and \<open>_update_vesting_speed\<close> divides by
  zero. The object is left reconciled and boosted. In the same way \<open>add_vesting(0)\<close>
  at that clock raises after the reconciliation and the epoch reset have been assigned.
\<close>

theorem calls_raise_after_mutation:
  "init 0 100 = Inr fresh_100
   \<and> boost (adjust_time 0 63072000) 10 fresh_100 =
       Raised ZeroDivisionError \<lparr> remain_vest_token = 0, total_boost_token = 10,
         total_vested = 100, speed = 100 / 63072000, boost_weight = 10,
         total_duration_seconds = 63072000, last_update_time = 63072000, claimed_amount = 0,
         claimable_boost_token = 0, claimable_vested_token = 0 \<rparr>
   \<and> ledger_after (boost (adjust_time 0 63072000) 10 fresh_100) \<noteq> fresh_100
   \<and> add_vesting (adjust_time 0 63072000) 0 fresh_100 =
       Raised ZeroDivisionError \<lparr> remain_vest_token = 0, total_boost_token = 0,
         total_vested = 0, speed = 0, boost_weight = 0, total_duration_seconds = 63072000,
         last_update_time = 63072000, claimed_amount = 0, claimable_boost_token = 0,
         claimable_vested_token = 100 \<rparr>"
  by (simp add: init_100) (simp add: eval_defs)

text \<open>
  What does hold: a failed assertion of \<open>boost\<close>, and a failure inside the
  reconciliation of either call, leave the ledger and the clock as they were;
  \<open>add_vesting\<close> raises no assertion.
\<close>

lemma failed_check_no_mutation:
  "(boost t a s = Raised (AssertionError m) s' \<longrightarrow> s' = s \<and> step (Boost a) (t, s) = (t, s))
   \<and> (update_state t s = Inl e \<longrightarrow>
        step (Boost a) (t, s) = (t, s) \<and> step (AddVesting a) (t, s) = (t, s))
   \<and> add_vesting t a s \<noteq> Raised (AssertionError m) s'"
proof (intro conjI impI)
  assume b: "boost t a s = Raised (AssertionError m) s'"
  then show "s' = s"
    by (auto simp: boost_def Let_def update_vesting_speed_Inl split: if_splits sum.splits
          dest: update_state_Inl)
  with b show "step (Boost a) (t, s) = (t, s)" by simp
next
  assume "update_state t s = Inl e"
  then show "step (Boost a) (t, s) = (t, s)" and "step (AddVesting a) (t, s) = (t, s)"
    by (simp_all add: boost_def add_vesting_def)
next
  show "add_vesting t a s \<noteq> Raised (AssertionError m) s'"
    by (auto simp: add_vesting_def Let_def update_vesting_speed_Inl split: sum.splits
          dest: update_state_Inl)
qed

section \<open>Boosting\<close>

text \<open>
  C5 gives \<open>boost\<close> three outcomes: the failure for no tokens to vest, the failure for
  a boost above the cap, and otherwise reconciliation, the two additions and the
  recomputed speed. Three years after the construction from 100 tokens all tokens have
  vested, tokens remain in the stored field, and 25 is within the cap: \<open>boost(25)\<close>
  passes both assertions, reconciles, adds the boost and then divides by zero. It
  neither fails with one of the two assertions nor completes.
\<close>

theorem boost_after_full_vesting_raises:
  "init 0 100 = Inr fresh_100
   \<and> remain_vest_token fresh_100 \<noteq> 0
   \<and> \<not> remain_vest_token fresh_100 + total_vested fresh_100
         < total_boost_token fresh_100 + of_int 25
   \<and> boost (adjust_time 0 94608000) 25 fresh_100 =
       Raised ZeroDivisionError \<lparr> remain_vest_token = 0, total_boost_token = 25,
         total_vested = 100, speed = 100 / 63072000, boost_weight = 25,
         total_duration_seconds = 63072000, last_update_time = 94608000, claimed_amount = 0,
         claimable_boost_token = 0, claimable_vested_token = 0 \<rparr>"
  by (simp add: init_100) (simp add: eval_defs)

section \<open>Advancing the clock\<close>

text \<open>
  C6 as stated fails: \<open>adjust_time\<close> has no check. Called with \<open>- 5\<close> at clock 10 it
  returns, and the clock is 5.
\<close>

theorem adjust_time_negative_counterexample:
  "step (AdjustTime (- 5)) (10, fresh_100) = (5, fresh_100) \<and> adjust_time 10 (- 5) = 5"
  by (simp add: adjust_time_def)

text \<open>
  C6, amended: for every ledger state and every argument, negative or not,
  \<open>adjust_time\<close> returns without an error, adds the argument to the clock, and changes
  no field of the ledger.
\<close>

theorem adjust_time_adds:
  "adjust_time t d = t + d \<and> step (AdjustTime d) (t, s) = (t + d, s)"
  by (simp add: adjust_time_def)

section \<open>Negative deposits\<close>




section \<open>Accrual\<close>

text \<open>
  C8 as stated fails: \<open>add_vesting\<close> accepts a negative deposit, and on the ledger
  built from 100 tokens \<open>add_vesting(-130)\<close> returns with \<open>- 30\<close> tokens remaining.
\<close>

theorem remaining_negative_counterexample:
  "init 0 100 = Inr fresh_100
   \<and> add_vesting 0 (- 130) fresh_100 =
       Returned \<lparr> remain_vest_token = - 30, total_boost_token = 0, total_vested = 0,
         speed = - 30 / 63072000, boost_weight = 0, total_duration_seconds = 63072000,
         last_update_time = 0, claimed_amount = 0, claimable_boost_token = 0,
         claimable_vested_token = 0 \<rparr>
   \<and> \<not> (0::rat) \<le> - 30"
  by (simp add: init_100) (simp add: eval_defs)

text \<open>
  C8, amended: whenever \<open>cal_state_update\<close> returns, the amount accrued is
  \<open>min (speed * time_elapsed) remain_vest_token\<close>, so it never exceeds
  \<open>remain_vest_token\<close>; a reconciliation step never takes a non-negative
  \<open>remain_vest_token\<close> below 0, and it brings \<open>remain_vest_token\<close> to exactly 0 when
  the stored speed times the time elapsed is at least \<open>remain_vest_token\<close>. In every
  ledger state reached from a construction with a positive amount by calls whose
  deposits are not negative, \<open>remain_vest_token\<close> is not negative.
\<close>

theorem accrual_capped_remaining_nonneg:
  "(cal_state_update u s = Inr (new_vested, w) \<longrightarrow>
      new_vested = min (speed s * of_int (u - last_update_time s)) (remain_vest_token s)
      \<and> new_vested \<le> remain_vest_token s)
   \<and> (0 \<le> remain_vest_token s \<longrightarrow> update_state u s = Inr s1 \<longrightarrow>
        0 \<le> remain_vest_token s1)
   \<and> (last_update_time s < u \<longrightarrow>
        remain_vest_token s \<le> speed s * of_int (u - last_update_time s) \<longrightarrow>
        update_state u s = Inr s1 \<longrightarrow> remain_vest_token s1 = 0)
   \<and> (init t v = Inr s0 \<longrightarrow> 0 < v \<longrightarrow> list_all nonneg_deposit ops \<longrightarrow>
        run ops (t, s0) = (t', s') \<longrightarrow> 0 \<le> remain_vest_token s')"
proof (intro conjI impI)
  assume "cal_state_update u s = Inr (new_vested, w)"
  then show "new_vested = min (speed s * of_int (u - last_update_time s)) (remain_vest_token s)"
    by (simp add: cal_state_update_def Let_def split: if_splits)
  then show "new_vested \<le> remain_vest_token s" by simp
next
  assume "0 \<le> remain_vest_token s" "update_state u s = Inr s1"
  then show "0 \<le> remain_vest_token s1" by (rule update_state_remain_nonneg)
next
  assume "last_update_time s < u"
    "remain_vest_token s \<le> speed s * of_int (u - last_update_time s)"
    "update_state u s = Inr s1"
  then show "remain_vest_token s1 = 0" by (rule update_state_exhausts)
next
  assume a: "init t v = Inr s0" "0 < v" "list_all nonneg_deposit ops"
    "run ops (t, s0) = (t', s')"
  from run_well_formed[of "(t, s0)" ops] init_well_formed[OF a(1,2)] a(3,4)
  have "well_formed s'" by simp
  then show "0 \<le> remain_vest_token s'" by (simp add: well_formed_def)
qed

theorem accrual_capped_remaining_nonneg_witness:
  "cal_state_update 94608000 fresh_100 = Inr (100, 0)
   \<and> (100::rat) = min (speed fresh_100 * of_int (94608000 - last_update_time fresh_100))
                      (remain_vest_token fresh_100)
   \<and> (100::rat) \<le> remain_vest_token fresh_100
   \<and> 0 \<le> remain_vest_token fresh_100 \<and> last_update_time fresh_100 < 94608000
   \<and> remain_vest_token fresh_100
       \<le> speed fresh_100 * of_int (94608000 - last_update_time fresh_100)
   \<and> update_state 94608000 fresh_100 =
       Inr \<lparr> remain_vest_token = 0, total_boost_token = 0, total_vested = 100,
             speed = 100 / 63072000, boost_weight = 0, total_duration_seconds = 63072000,
             last_update_time = 94608000, claimed_amount = 0, claimable_boost_token = 0,
             claimable_vested_token = 0 \<rparr>
   \<and> init 0 100 = Inr fresh_100 \<and> (0::int) < 100
   \<and> list_all nonneg_deposit [AdjustTime 31536000, AddVesting 0]
   \<and> run [AdjustTime 31536000, AddVesting 0] (0, fresh_100) = (31536000, half_100)
   \<and> 0 \<le> remain_vest_token half_100"
proof -
  let ?R = "\<lparr> remain_vest_token = 0, total_boost_token = 0, total_vested = 100,
             speed = 100 / 63072000, boost_weight = 0, total_duration_seconds = 63072000,
             last_update_time = 94608000, claimed_amount = 0, claimable_boost_token = 0,
             claimable_vested_token = (0::rat) \<rparr>"
  have c: "cal_state_update 94608000 fresh_100 = Inr (100, 0)"
    by (simp add: eval_defs)
  have g: "0 \<le> remain_vest_token fresh_100" and l: "last_update_time fresh_100 < 94608000"
    and k: "remain_vest_token fresh_100
       \<le> speed fresh_100 * of_int (94608000 - last_update_time fresh_100)"
    by (simp_all add: fresh_100_def)
  have u: "update_state 94608000 fresh_100 = Inr ?R"
    by (simp add: eval_defs)
  have z: "(0::int) < 100" by simp
  have p: "list_all nonneg_deposit [AdjustTime 31536000, AddVesting 0]" by simp
  have r: "run [AdjustTime 31536000, AddVesting 0] (0, fresh_100) = (31536000, half_100)"
    by (simp add: eval_defs half_100_def)
  note th = accrual_capped_remaining_nonneg[where u = 94608000 and s = fresh_100
      and new_vested = 100 and w = 0 and ?s1.0 = ?R and t = 0 and v = 100
      and ?s0.0 = fresh_100 and ops = "[AdjustTime 31536000, AddVesting 0]"
      and t' = 31536000 and s' = half_100]
  from th c
  have m: "(100::rat) = min (speed fresh_100 * of_int (94608000 - last_update_time fresh_100))
                      (remain_vest_token fresh_100)"
    and n: "(100::rat) \<le> remain_vest_token fresh_100"
    by blast+
  from th l k u have "remain_vest_token ?R = 0" by blast
  from th init_100 z p r have h: "0 \<le> remain_vest_token half_100"
    by blast
  from c m n g l k u init_100 z p r h show ?thesis by (intro conjI)
qed

section \<open>Boost weight\<close>




section \<open>Construction with no tokens\<close>

text \<open>
  C10: the constructor called with the initial amount 0 raises \<open>ZeroDivisionError\<close>, at
  every value of the clock, and the constructor returns a ledger for exactly the nonzero
  initial amounts.
\<close>

theorem init_zero_raises:
  "init t 0 = Inl ZeroDivisionError \<and> ((\<exists>s. init t v = Inr s) \<longleftrightarrow> v \<noteq> 0)"
  by (simp add: init_eq)

theorem init_zero_raises_witness:
  "init 0 0 = Inl ZeroDivisionError \<and> (\<exists>s. init 0 100 = Inr s)"
  using init_zero_raises [of 0 100] by simp

end
